theory Spec2Isabelle
  imports Complex_Main "HOL-Library.AList"
begin

section \<open>Data model of the trend continuation strategy\<close>

text \<open>
  The strategy of \<^verbatim>\<open>trading_system/core/strategy.py\<close> works on Python floats held in
  pandas series. A float is modelled as a finite real number, one of the two infinities,
  or NaN; arithmetic on finite values is exact (rounding and overflow are not modelled),
  and the special values follow IEEE 754 as numpy applies it to a series.
\<close>

datatype TrendDirection = BULLISH | BEARISH | SIDEWAYS

datatype SessionType = ASIAN | EUROPEAN | US | OVERLAP

datatype pyfloat = Fin real | PInf | NInf | NaN

datatype error = KeyError | ValueError | IndexError

fun trend_value :: "TrendDirection \<Rightarrow> string" where
  "trend_value BULLISH = ''bullish''"
| "trend_value BEARISH = ''bearish''"
| "trend_value SIDEWAYS = ''sideways''"

subsection \<open>Float operations\<close>

fun flt :: "pyfloat \<Rightarrow> pyfloat \<Rightarrow> bool" where
  "flt NaN y = False"
| "flt x NaN = False"
| "flt (Fin a) (Fin b) = (a < b)"
| "flt (Fin a) PInf = True"
| "flt (Fin a) NInf = False"
| "flt PInf y = False"
| "flt NInf (Fin b) = True"
| "flt NInf PInf = True"
| "flt NInf NInf = False"

definition fgt :: "pyfloat \<Rightarrow> pyfloat \<Rightarrow> bool" where
  "fgt x y = flt y x"

definition fge :: "pyfloat \<Rightarrow> pyfloat \<Rightarrow> bool" where
  "fge x y = (x \<noteq> NaN \<and> y \<noteq> NaN \<and> \<not> flt x y)"

fun fneg :: "pyfloat \<Rightarrow> pyfloat" where
  "fneg (Fin a) = Fin (- a)"
| "fneg PInf = NInf"
| "fneg NInf = PInf"
| "fneg NaN = NaN"

fun fabs :: "pyfloat \<Rightarrow> pyfloat" where
  "fabs (Fin a) = Fin \<bar>a\<bar>"
| "fabs PInf = PInf"
| "fabs NInf = PInf"
| "fabs NaN = NaN"

fun fadd :: "pyfloat \<Rightarrow> pyfloat \<Rightarrow> pyfloat" where
  "fadd NaN y = NaN"
| "fadd x NaN = NaN"
| "fadd (Fin a) (Fin b) = Fin (a + b)"
| "fadd (Fin a) PInf = PInf"
| "fadd (Fin a) NInf = NInf"
| "fadd PInf NInf = NaN"
| "fadd PInf y = PInf"
| "fadd NInf PInf = NaN"
| "fadd NInf y = NInf"

definition fsub :: "pyfloat \<Rightarrow> pyfloat \<Rightarrow> pyfloat" where
  "fsub x y = fadd x (fneg y)"

text \<open>The sign of a float that is not NaN: \<open>-1\<close>, \<open>0\<close> or \<open>1\<close>.\<close>

fun fsign :: "pyfloat \<Rightarrow> int" where
  "fsign (Fin a) = (if a < 0 then - 1 else if a = 0 then 0 else 1)"
| "fsign PInf = 1"
| "fsign NInf = - 1"
| "fsign NaN = 0"

definition inf_of_sign :: "int \<Rightarrow> pyfloat" where
  "inf_of_sign s = (if s < 0 then NInf else if s = 0 then NaN else PInf)"

fun fmul :: "pyfloat \<Rightarrow> pyfloat \<Rightarrow> pyfloat" where
  "fmul NaN y = NaN"
| "fmul x NaN = NaN"
| "fmul (Fin a) (Fin b) = Fin (a * b)"
| "fmul x y = inf_of_sign (fsign x * fsign y)"

text \<open>
  Division of series elements (numpy's \<open>true_divide\<close>): a nonzero value over zero is
  an infinity, zero over zero is NaN, a finite value over an infinity is zero.
\<close>

fun fdiv :: "pyfloat \<Rightarrow> pyfloat \<Rightarrow> pyfloat" where
  "fdiv NaN y = NaN"
| "fdiv x NaN = NaN"
| "fdiv (Fin a) (Fin b) = (if b = 0 then inf_of_sign (fsign (Fin a)) else Fin (a / b))"
| "fdiv (Fin a) y = Fin 0"
| "fdiv x (Fin b) = inf_of_sign (fsign x * (if b < 0 then - 1 else 1))"
| "fdiv x y = NaN"

text \<open>Python's builtin \<open>min(a, b)\<close>: the first argument unless the second is smaller.\<close>

definition pymin :: "pyfloat \<Rightarrow> pyfloat \<Rightarrow> pyfloat" where
  "pymin a b = (if flt b a then b else a)"

subsection \<open>Configuration, analysis and signal records\<close>

text \<open>
  The threshold and the multiplier of the configuration and the current price of a signal
  are finite numbers; indicator values are floats and may be NaN or infinite.
\<close>

record StrategyConfig =
  name :: string
  d1_ema_fast :: int
  d1_ema_slow :: int
  h4_ema_fast :: int
  h4_ema_slow :: int
  adx_period :: int
  adx_threshold :: real
  atr_period :: int
  atr_multiplier :: real

record TrendAnalysis =
  d1_trend :: TrendDirection
  h4_trend :: TrendDirection
  adx_strength :: pyfloat
  ema_fast :: pyfloat
  ema_slow :: pyfloat
  atr_value :: pyfloat
  trend_confirmation :: bool

record SignalMetadata =
  meta_atr_value :: pyfloat
  meta_adx_strength :: pyfloat
  meta_trend_d1 :: string
  meta_atr_multiplier :: real

record SignalData =
  symbol :: string
  signal_type :: string
  strength :: pyfloat
  session :: SessionType
  timestamp :: int
  price :: real
  stop_loss :: "pyfloat option"
  take_profit :: "pyfloat option"
  risk_amount :: "pyfloat option"
  metadata :: "SignalMetadata option"

record strategy_state =
  config :: StrategyConfig
  active_signals :: "(string \<times> SignalData) list"
  trend_cache :: "(string \<times> TrendAnalysis) list"

text \<open>\<open>TrendContinuationStrategy.__init__\<close>: both dictionaries start empty.\<close>

definition init_strategy :: "StrategyConfig \<Rightarrow> strategy_state" where
  "init_strategy cfg = \<lparr>config = cfg, active_signals = [], trend_cache = []\<rparr>"

subsection \<open>Trend confirmation\<close>

definition is_trend_confirmed ::
  "StrategyConfig \<Rightarrow> TrendDirection \<Rightarrow> TrendDirection \<Rightarrow> pyfloat \<Rightarrow> bool" where
  "is_trend_confirmed cfg d1 h4 adx =
     (let trends_align = (d1 = h4 \<and> d1 \<noteq> SIDEWAYS);
          adx_confirms = fge adx (Fin (adx_threshold cfg))
      in trends_align \<and> adx_confirms)"

subsection \<open>Exceptions\<close>

text \<open>
  A computation that may raise returns \<open>Inl\<close> of the error; \<open>bind_err\<close> sequences two
  statements, the second being skipped when the first raises.
\<close>

definition bind_err :: "error + 'a \<Rightarrow> ('a \<Rightarrow> error + 'b) \<Rightarrow> error + 'b" where
  "bind_err m f = (case m of Inl e \<Rightarrow> Inl e | Inr x \<Rightarrow> f x)"

section \<open>Series operations\<close>

text \<open>
  A pandas series of floats is a list of \<^typ>\<open>pyfloat\<close>; all series of one frame share
  its index, so element-wise operators pair equal positions.
\<close>

definition series_sub :: "pyfloat list \<Rightarrow> pyfloat list \<Rightarrow> pyfloat list" where
  "series_sub xs ys = map2 fsub xs ys"

definition series_add :: "pyfloat list \<Rightarrow> pyfloat list \<Rightarrow> pyfloat list" where
  "series_add xs ys = map2 fadd xs ys"

definition series_div :: "pyfloat list \<Rightarrow> pyfloat list \<Rightarrow> pyfloat list" where
  "series_div xs ys = map2 fdiv xs ys"

definition series_scale :: "pyfloat list \<Rightarrow> real \<Rightarrow> pyfloat list" where
  "series_scale xs k = map (\<lambda>x. fmul x (Fin k)) xs"

definition series_abs :: "pyfloat list \<Rightarrow> pyfloat list" where
  "series_abs xs = map fabs xs"

definition series_neg :: "pyfloat list \<Rightarrow> pyfloat list" where
  "series_neg xs = map fneg xs"

text \<open>\<open>s.shift(1)\<close>: every value moves one position later, the first becomes NaN.\<close>

definition shift1 :: "pyfloat list \<Rightarrow> pyfloat list" where
  "shift1 xs = (case xs of [] \<Rightarrow> [] | _ # _ \<Rightarrow> NaN # butlast xs)"

text \<open>\<open>s.diff()\<close>: the difference to the previous element, NaN at the first position.\<close>

definition diff :: "pyfloat list \<Rightarrow> pyfloat list" where
  "diff xs = series_sub xs (shift1 xs)"

text \<open>\<open>a[a < b] = 0\<close>: boolean-mask assignment; a comparison with NaN selects nothing.\<close>

definition zero_where_lt :: "pyfloat list \<Rightarrow> pyfloat list \<Rightarrow> pyfloat list" where
  "zero_where_lt xs ys = map2 (\<lambda>x y. if flt x y then Fin 0 else x) xs ys"

definition zero_where_neg :: "pyfloat list \<Rightarrow> pyfloat list" where
  "zero_where_neg xs = map (\<lambda>x. if flt x (Fin 0) then Fin 0 else x) xs"

text \<open>\<open>s.fillna(0)\<close>.\<close>

definition fillna0 :: "pyfloat list \<Rightarrow> pyfloat list" where
  "fillna0 xs = map (\<lambda>x. if x = NaN then Fin 0 else x) xs"

text \<open>
  \<open>pd.concat([a, b, c], axis=1).max(axis=1)\<close>: the row-wise maximum, skipping NaN
  (a row of NaN only gives NaN).
\<close>

definition fmax_skipna :: "pyfloat \<Rightarrow> pyfloat \<Rightarrow> pyfloat" where
  "fmax_skipna x y = (if x = NaN then y else if y = NaN then x else if flt x y then y else x)"

definition row_max3 :: "pyfloat list \<Rightarrow> pyfloat list \<Rightarrow> pyfloat list \<Rightarrow> pyfloat list" where
  "row_max3 xs ys zs = map2 fmax_skipna (map2 fmax_skipna xs ys) zs"

text \<open>\<open>s.iloc[-1]\<close> raises on an empty series.\<close>

definition iloc_last :: "pyfloat list \<Rightarrow> error + pyfloat" where
  "iloc_last xs = (if xs = [] then Inl IndexError else Inr (last xs))"

subsection \<open>Rolling mean\<close>

fun is_fin :: "pyfloat \<Rightarrow> bool" where
  "is_fin (Fin a) = True"
| "is_fin x = False"

fun fin_val :: "pyfloat \<Rightarrow> real" where
  "fin_val (Fin a) = a"
| "fin_val x = 0"

text \<open>
  \<open>s.rolling(window=p).mean()\<close> with the default \<open>min_periods = p\<close>: the mean of the
  last \<open>p\<close> values, NaN while fewer than \<open>p\<close> values exist or when the window holds a
  NaN; pandas turns infinities into NaN before it averages. The window is kept
  newest first.
\<close>

definition window_mean :: "nat \<Rightarrow> pyfloat list \<Rightarrow> pyfloat" where
  "window_mean p w =
     (if p = 0 \<or> length w < p \<or> \<not> list_all is_fin w then NaN
      else Fin (sum_list (map fin_val w) / real p))"

fun rolling_loop :: "nat \<Rightarrow> pyfloat list \<Rightarrow> pyfloat list \<Rightarrow> pyfloat list" where
  "rolling_loop p seen [] = []"
| "rolling_loop p seen (x # xs) =
     window_mean p (take p (x # seen)) # rolling_loop p (x # seen) xs"

definition rolling_mean :: "int \<Rightarrow> pyfloat list \<Rightarrow> error + pyfloat list" where
  "rolling_mean window xs =
     (if window < 0 then Inl ValueError else Inr (rolling_loop (nat window) [] xs))"

subsection \<open>Exponentially weighted mean\<close>

text \<open>
  \<open>s.ewm(span=n).mean()\<close> with the defaults \<open>adjust=True\<close>, \<open>ignore_na=False\<close>,
  \<open>min_periods=0\<close>. pandas refuses a span below one. The loop carries the running
  weighted average and the weight \<open>old_wt\<close> of the history; the decay factor is
  \<open>1 - alpha\<close> with \<open>alpha = 2 / (span + 1)\<close>.
\<close>

definition ewm_factor :: "int \<Rightarrow> real" where
  "ewm_factor n = 1 - 2 / (real_of_int n + 1)"

fun ewm_loop :: "real \<Rightarrow> pyfloat \<Rightarrow> real \<Rightarrow> pyfloat list \<Rightarrow> pyfloat list" where
  "ewm_loop f avg old_wt [] = []"
| "ewm_loop f avg old_wt (cur # xs) =
     (if avg \<noteq> NaN then
        (if cur \<noteq> NaN then
           (let ow = old_wt * f;
                avg' = (if avg \<noteq> cur
                        then fdiv (fadd (fmul (Fin ow) avg) (fmul (Fin 1) cur)) (Fin (ow + 1))
                        else avg)
            in avg' # ewm_loop f avg' (ow + 1) xs)
         else avg # ewm_loop f avg (old_wt * f) xs)
      else (if cur \<noteq> NaN then cur # ewm_loop f cur old_wt xs
            else NaN # ewm_loop f avg old_wt xs))"

definition ewm_mean :: "int \<Rightarrow> pyfloat list \<Rightarrow> error + pyfloat list" where
  "ewm_mean n xs =
     (if n < 1 then Inl ValueError
      else Inr (case xs of [] \<Rightarrow> [] | x # rest \<Rightarrow> x # ewm_loop (ewm_factor n) x 1 rest))"

section \<open>Bar series\<close>

text \<open>
  A frame of bars is held row by row together with the names of the columns it has, so
  all its columns have the same length; reading a column the frame lacks raises
  \<open>KeyError\<close>. The cells are finite numbers.
\<close>

datatype column = OPEN | HIGH | LOW | CLOSE | VOLUME

record bar =
  bar_open :: real
  bar_high :: real
  bar_low :: real
  bar_close :: real
  bar_volume :: real

record dataframe =
  columns :: "column list"
  rows :: "bar list"

fun cell :: "column \<Rightarrow> bar \<Rightarrow> real" where
  "cell OPEN b = bar_open b"
| "cell HIGH b = bar_high b"
| "cell LOW b = bar_low b"
| "cell CLOSE b = bar_close b"
| "cell VOLUME b = bar_volume b"

definition len :: "dataframe \<Rightarrow> int" where
  "len df = int (length (rows df))"

definition getitem :: "dataframe \<Rightarrow> column \<Rightarrow> error + pyfloat list" where
  "getitem df c =
     (if c \<in> set (columns df) then Inr (map (\<lambda>b. Fin (cell c b)) (rows df))
      else Inl KeyError)"

section \<open>Indicators\<close>

text \<open>
  The true range of \<open>_calculate_adx\<close> and \<open>_calculate_atr\<close>: the row-wise maximum of
  \<open>high - low\<close>, \<open>|high - close.shift(1)|\<close> and \<open>|low - close.shift(1)|\<close>.
\<close>

definition true_range :: "pyfloat list \<Rightarrow> pyfloat list \<Rightarrow> pyfloat list \<Rightarrow> pyfloat list" where
  "true_range hs ls cs =
     (let tr1 = series_sub hs ls;
          tr2 = series_abs (series_sub hs (shift1 cs));
          tr3 = series_abs (series_sub ls (shift1 cs))
      in row_max3 tr1 tr2 tr3)"

text \<open>
  The directional movement of \<open>_calculate_adx\<close> with its four mask assignments, in the
  order of the source: the third one compares with the already updated \<open>dm_plus\<close>.
\<close>

definition directional_movement ::
  "pyfloat list \<Rightarrow> pyfloat list \<Rightarrow> pyfloat list \<times> pyfloat list" where
  "directional_movement hs ls =
     (let dm_plus0 = diff hs;
          dm_minus0 = series_neg (diff ls);
          dm_plus1 = zero_where_lt dm_plus0 dm_minus0;
          dm_plus = zero_where_neg dm_plus1;
          dm_minus1 = zero_where_lt dm_minus0 dm_plus;
          dm_minus = zero_where_neg dm_minus1
      in (dm_plus, dm_minus))"

definition calculate_adx :: "dataframe \<Rightarrow> int \<Rightarrow> error + pyfloat list" where
  "calculate_adx df period =
     bind_err (getitem df HIGH) (\<lambda>hs.
     bind_err (getitem df LOW) (\<lambda>ls.
     bind_err (getitem df CLOSE) (\<lambda>cs.
       let tr = true_range hs ls cs;
           dm = directional_movement hs ls;
           dm_plus = fst dm;
           dm_minus = snd dm
       in
     bind_err (rolling_mean period tr) (\<lambda>atr.
     bind_err (rolling_mean period dm_plus) (\<lambda>avg_plus.
       let di_plus = series_scale (series_div avg_plus atr) 100 in
     bind_err (rolling_mean period dm_minus) (\<lambda>avg_minus.
       let di_minus = series_scale (series_div avg_minus atr) 100;
           dx = series_scale
                  (series_div (series_abs (series_sub di_plus di_minus))
                              (series_add di_plus di_minus)) 100
       in
     bind_err (rolling_mean period dx) (\<lambda>adx.
       Inr (fillna0 adx))))))))"

definition calculate_atr :: "dataframe \<Rightarrow> int \<Rightarrow> error + pyfloat list" where
  "calculate_atr df period =
     bind_err (getitem df HIGH) (\<lambda>hs.
     bind_err (getitem df LOW) (\<lambda>ls.
     bind_err (getitem df CLOSE) (\<lambda>cs.
     bind_err (ewm_mean period (true_range hs ls cs)) (\<lambda>atr.
       Inr (fillna0 atr)))))"

section \<open>Trend classification\<close>

definition compute_trend_d1 :: "StrategyConfig \<Rightarrow> dataframe \<Rightarrow> error + TrendDirection" where
  "compute_trend_d1 cfg df_d1 =
     (if len df_d1 < max (d1_ema_fast cfg) (d1_ema_slow cfg) then Inr SIDEWAYS
      else
        bind_err (getitem df_d1 CLOSE) (\<lambda>cs.
        bind_err (ewm_mean (d1_ema_fast cfg) cs) (\<lambda>fast.
        bind_err (getitem df_d1 CLOSE) (\<lambda>cs'.
        bind_err (ewm_mean (d1_ema_slow cfg) cs') (\<lambda>slow.
        bind_err (iloc_last fast) (\<lambda>latest_fast.
        bind_err (iloc_last slow) (\<lambda>latest_slow.
          if fgt latest_fast latest_slow then Inr BULLISH
          else if flt latest_fast latest_slow then Inr BEARISH
          else Inr SIDEWAYS)))))))"

definition compute_trend_h4 ::
  "StrategyConfig \<Rightarrow> dataframe \<Rightarrow>
     error + (TrendDirection \<times> pyfloat \<times> pyfloat \<times> pyfloat \<times> pyfloat)" where
  "compute_trend_h4 cfg df_h4 =
     (if len df_h4 < max (max (h4_ema_fast cfg) (h4_ema_slow cfg)) (adx_period cfg)
      then Inr (SIDEWAYS, Fin 0, Fin 0, Fin 0, Fin 0)
      else
        bind_err (getitem df_h4 CLOSE) (\<lambda>cs.
        bind_err (ewm_mean (h4_ema_fast cfg) cs) (\<lambda>fast.
        bind_err (getitem df_h4 CLOSE) (\<lambda>cs'.
        bind_err (ewm_mean (h4_ema_slow cfg) cs') (\<lambda>slow.
        bind_err (calculate_adx df_h4 (adx_period cfg)) (\<lambda>adx_series.
        bind_err (calculate_atr df_h4 (atr_period cfg)) (\<lambda>atr_series.
        bind_err (iloc_last fast) (\<lambda>latest_fast.
        bind_err (iloc_last slow) (\<lambda>latest_slow.
          let latest_adx = (if length adx_series > 0 then last adx_series else Fin 0);
              latest_atr = (if length atr_series > 0 then last atr_series else Fin 0);
              h4 = (if fgt latest_fast latest_slow then BULLISH
                    else if flt latest_fast latest_slow then BEARISH
                    else SIDEWAYS)
          in Inr (h4, latest_adx, latest_fast, latest_slow, latest_atr))))))))))"

section \<open>Analysis, signal synthesis and orchestration\<close>

text \<open>
  \<open>analyze_trend\<close> logs an exception of the indicator computation and raises it again,
  so the error reaches its caller. Logging has no effect on the strategy state and is
  left out.
\<close>

definition analyze_trend :: "StrategyConfig \<Rightarrow> dataframe \<Rightarrow> dataframe \<Rightarrow> error + TrendAnalysis" where
  "analyze_trend cfg df_d1 df_h4 =
     bind_err (compute_trend_d1 cfg df_d1) (\<lambda>d1.
     bind_err (compute_trend_h4 cfg df_h4) (\<lambda>(h4, adx, fast, slow, atr).
       Inr \<lparr>d1_trend = d1, h4_trend = h4, adx_strength = adx, ema_fast = fast,
            ema_slow = slow, atr_value = atr,
            trend_confirmation = is_trend_confirmed cfg d1 h4 adx\<rparr>))"

text \<open>The clock reading \<open>datetime.now(timezone.utc)\<close> is an argument.\<close>

definition create_signal ::
  "StrategyConfig \<Rightarrow> string \<Rightarrow> TrendDirection \<Rightarrow> SessionType \<Rightarrow> real \<Rightarrow> pyfloat \<Rightarrow>
     pyfloat \<Rightarrow> int \<Rightarrow> SignalData" where
  "create_signal cfg symb trend sess current_price atr adx now =
     (let sig_type = (if trend = BULLISH then ''buy'' else ''sell'');
          strength_n = pymin (fdiv adx (Fin 50)) (Fin 1);
          m = atr_multiplier cfg;
          (sl, tp) =
            (if trend = BULLISH
             then (fsub (Fin current_price) (fmul atr (Fin m)),
                   fadd (Fin current_price) (fmul (fmul atr (Fin m)) (Fin 2)))
             else (fadd (Fin current_price) (fmul atr (Fin m)),
                   fsub (Fin current_price) (fmul (fmul atr (Fin m)) (Fin 2))))
      in \<lparr>symbol = symb, signal_type = sig_type, strength = strength_n, session = sess,
          timestamp = now, price = current_price, stop_loss = Some sl,
          take_profit = Some tp, risk_amount = None,
          metadata = Some \<lparr>meta_atr_value = atr, meta_adx_strength = adx,
                            meta_trend_d1 = trend_value trend,
                            meta_atr_multiplier = m\<rparr>\<rparr>)"

text \<open>
  \<open>generate_signal\<close> returns the signal (or \<open>None\<close>) and the state it leaves. Its
  \<open>except Exception\<close> handler turns an exception of \<open>analyze_trend\<close> into \<open>None\<close>;
  the cache assignment comes after the analysis and is skipped then.
\<close>

definition generate_signal ::
  "strategy_state \<Rightarrow> string \<Rightarrow> dataframe \<Rightarrow> dataframe \<Rightarrow> SessionType \<Rightarrow> real \<Rightarrow> int \<Rightarrow>
     SignalData option \<times> strategy_state" where
  "generate_signal st symb df_d1 df_h4 current_session current_price now =
     (case analyze_trend (config st) df_d1 df_h4 of
        Inl e \<Rightarrow> (None, st)
      | Inr analysis \<Rightarrow>
          (let st' = st\<lparr>trend_cache := AList.update symb analysis (trend_cache st)\<rparr>;
               signal = (if trend_confirmation analysis
                         then Some (create_signal (config st) symb (d1_trend analysis)
                                      current_session current_price (atr_value analysis)
                                      (adx_strength analysis) now)
                         else None)
           in (signal, st')))"

text \<open>\<open>update_signal\<close> is a stub (\<open>pass\<close>): it returns \<open>None\<close> and touches nothing.\<close>

definition update_signal ::
  "strategy_state \<Rightarrow> string \<Rightarrow> string \<Rightarrow> SignalData option \<times> strategy_state" where
  "update_signal st symb signal_id = (None, st)"

record strategy_status =
  status_name :: string
  status_active_signals :: nat
  status_cached_analysis :: nat
  status_config :: StrategyConfig
  status_timestamp :: int

definition get_strategy_status :: "strategy_state \<Rightarrow> int \<Rightarrow> strategy_status" where
  "get_strategy_status st now =
     \<lparr>status_name = name (config st),
      status_active_signals = length (active_signals st),
      status_cached_analysis = length (trend_cache st),
      status_config = config st,
      status_timestamp = now\<rparr>"

subsection \<open>Sequences of public calls\<close>

datatype call =
    AnalyzeTrend dataframe dataframe
  | GenerateSignal string dataframe dataframe SessionType real int
  | UpdateSignal string string
  | GetStrategyStatus int

text \<open>The state a public call leaves; \<open>analyze_trend\<close> and the status report only read.\<close>

fun do_call :: "strategy_state \<Rightarrow> call \<Rightarrow> strategy_state" where
  "do_call st (AnalyzeTrend df_d1 df_h4) = st"
| "do_call st (GenerateSignal symb df_d1 df_h4 sess p now) =
     snd (generate_signal st symb df_d1 df_h4 sess p now)"
| "do_call st (UpdateSignal symb signal_id) = snd (update_signal st symb signal_id)"
| "do_call st (GetStrategyStatus now) = st"

definition run_calls :: "strategy_state \<Rightarrow> call list \<Rightarrow> strategy_state" where
  "run_calls st cs = foldl do_call st cs"


section \<open>The weighted average behind the EMA\<close>





section \<open>Value ranges\<close>

text \<open>Predicates on floats used to state what the indicator series may hold.\<close>

fun nonneg_or_nan :: "pyfloat \<Rightarrow> bool" where
  "nonneg_or_nan (Fin v) = (0 \<le> v)"
| "nonneg_or_nan NaN = True"
| "nonneg_or_nan x = False"

fun percent_or_nan :: "pyfloat \<Rightarrow> bool" where
  "percent_or_nan (Fin v) = (0 \<le> v \<and> v \<le> 100)"
| "percent_or_nan NaN = True"
| "percent_or_nan x = False"

fun nonneg_or_undefined :: "pyfloat \<Rightarrow> bool" where
  "nonneg_or_undefined (Fin v) = (0 \<le> v)"
| "nonneg_or_undefined NaN = True"
| "nonneg_or_undefined PInf = True"
| "nonneg_or_undefined NInf = False"

section \<open>Concrete inputs\<close>

text \<open>
  Small frames and configurations on which the operations are evaluated. \<open>cfg_test\<close> is
  the configuration of the unit tests; \<open>cfg_short\<close> has short periods so that a few bars
  are enough history.
\<close>

definition mk_bar :: "real \<Rightarrow> real \<Rightarrow> real \<Rightarrow> bar" where
  "mk_bar h l c = \<lparr>bar_open = c, bar_high = h, bar_low = l, bar_close = c, bar_volume = 0\<rparr>"

definition frame :: "bar list \<Rightarrow> dataframe" where
  "frame bs = \<lparr>columns = [OPEN, HIGH, LOW, CLOSE, VOLUME], rows = bs\<rparr>"


definition cfg_short :: StrategyConfig where
  "cfg_short = \<lparr>name = ''Short'', d1_ema_fast = 1, d1_ema_slow = 2,
      h4_ema_fast = 1, h4_ema_slow = 2, adx_period = 2, adx_threshold = 25,
      atr_period = 1, atr_multiplier = 2\<rparr>"

definition d1_rising :: dataframe where
  "d1_rising = frame [mk_bar 1 1 1, mk_bar 2 2 2]"

definition h4_rising :: dataframe where
  "h4_rising = frame [mk_bar 10 9 10, mk_bar 11 10 11, mk_bar 12 11 12, mk_bar 13 12 13]"

text \<open>A rising series whose last bar has no range and opens where the previous one closed.\<close>

definition h4_stalled :: dataframe where
  "h4_stalled = frame [mk_bar 10 9 10, mk_bar 11 10 11, mk_bar 12 11 12, mk_bar 12 12 12]"

text \<open>A frame without its \<open>close\<close> column.\<close>

definition d1_no_close :: dataframe where
  "d1_no_close = \<lparr>columns = [OPEN, HIGH, LOW, VOLUME], rows = [mk_bar 1 1 1, mk_bar 2 2 2]\<rparr>"








section \<open>Trend confirmation\<close>

lemma fge_Fin [simp]: "fge (Fin a) (Fin b) = (b \<le> a)"
  by (auto simp: fge_def)

text \<open>
  C1. For all trend directions \<open>d1\<close>, \<open>h4\<close> and every float \<open>adx\<close>, the confirmation is
  true exactly when the two directions are equal, are not SIDEWAYS, and \<open>adx >= adx_threshold\<close>
  holds as Python evaluates it: for a finite \<open>adx\<close> the comparison of the numbers, true for
  \<open>+inf\<close>, false for \<open>-inf\<close> and for NaN. Every other combination gives false.
\<close>

theorem is_trend_confirmed_iff:
  "is_trend_confirmed cfg d1 h4 adx =
     (d1 = h4 \<and> d1 \<noteq> SIDEWAYS \<and>
      (case adx of Fin a \<Rightarrow> adx_threshold cfg \<le> a | PInf \<Rightarrow> True
                 | NInf \<Rightarrow> False | NaN \<Rightarrow> False))"
  by (cases adx) (auto simp: is_trend_confirmed_def fge_def)

section \<open>Evaluations on the concrete inputs\<close>

lemma analyze_rising:
  "analyze_trend cfg_short d1_rising h4_rising =
     Inr \<lparr>d1_trend = BULLISH, h4_trend = BULLISH, adx_strength = Fin 100,
          ema_fast = Fin 13, ema_slow = Fin (251 / 20), atr_value = Fin 1,
          trend_confirmation = True\<rparr>"
  by code_simp


lemma d1_no_close_raises: "compute_trend_d1 cfg_short d1_no_close = Inl KeyError"
  by code_simp

lemma analyze_no_close: "analyze_trend cfg_short d1_no_close h4_rising = Inl KeyError"
  by code_simp

lemma config_init [simp]: "config (init_strategy cfg) = cfg"
  by (simp add: init_strategy_def)

section \<open>Error handling of the orchestration\<close>

lemma bind_err_Inl [simp]: "bind_err (Inl e) f = Inl e"
  by (simp add: bind_err_def)

lemma bind_err_Inr [simp]: "bind_err (Inr x) f = f x"
  by (simp add: bind_err_def)

lemma generate_signal_Inl:
  "analyze_trend (config st) df_d1 df_h4 = Inl e \<Longrightarrow>
   generate_signal st symb df_d1 df_h4 sess p now = (None, st)"
  by (simp add: generate_signal_def)

lemma generate_signal_Inr:
  "analyze_trend (config st) df_d1 df_h4 = Inr a \<Longrightarrow>
   generate_signal st symb df_d1 df_h4 sess p now =
     (if trend_confirmation a
      then Some (create_signal (config st) symb (d1_trend a) sess p (atr_value a)
                   (adx_strength a) now)
      else None,
      st\<lparr>trend_cache := AList.update symb a (trend_cache st)\<rparr>)"
  by (simp add: generate_signal_def Let_def)

text \<open>
  C4 (as the code has it). On every input on which the indicator computation raises, that
  is \<open>_compute_trend_d1\<close> raises or, after it returned, \<open>_compute_trend_h4\<close> raises,
  \<open>analyze_trend\<close> raises the same exception to its caller (it logs and re-raises),
  while \<open>generate_signal\<close> catches it and returns \<open>None\<close>.
\<close>

theorem indicator_error_boundary:
  assumes "compute_trend_d1 (config st) df_d1 = Inl e \<or>
           (\<exists>t. compute_trend_d1 (config st) df_d1 = Inr t \<and>
                compute_trend_h4 (config st) df_h4 = Inl e)"
  shows "analyze_trend (config st) df_d1 df_h4 = Inl e \<and>
         fst (generate_signal st symb df_d1 df_h4 sess p now) = None"
proof -
  from assms have "analyze_trend (config st) df_d1 df_h4 = Inl e"
    by (auto simp: analyze_trend_def)
  then show ?thesis
    by (simp add: generate_signal_Inl)
qed

theorem indicator_error_boundary_witness:
  "compute_trend_d1 cfg_short d1_no_close = Inl KeyError \<and>
   analyze_trend cfg_short d1_no_close h4_rising = Inl KeyError \<and>
   fst (generate_signal (init_strategy cfg_short) ''EURUSD'' d1_no_close h4_rising US 5 0) = None"
  using indicator_error_boundary [of "init_strategy cfg_short" d1_no_close KeyError h4_rising
      "''EURUSD''" US 5 0]
  by (simp add: d1_no_close_raises)

text \<open>
  C4, the claim as stated, fails for \<open>analyze_trend\<close>: on a daily frame without its
  \<open>close\<close> column the indicator computation raises \<open>KeyError\<close> and \<open>analyze_trend\<close>
  hands the exception to its caller instead of returning a value.
\<close>

theorem analyze_trend_propagates:
  "compute_trend_d1 cfg_short d1_no_close = Inl KeyError \<and>
   analyze_trend cfg_short d1_no_close h4_rising = Inl KeyError \<and>
   (\<nexists>a. analyze_trend cfg_short d1_no_close h4_rising = Inr a)"
  by (simp add: d1_no_close_raises analyze_no_close)

text \<open>
  C9. Whenever \<open>analyze_trend\<close> raises, \<open>generate_signal\<close> returns \<open>None\<close> and the strategy
  state after the call is the state before it: \<open>trend_cache\<close> and \<open>active_signals\<close> are
  unchanged, the cache assignment is skipped.
\<close>

theorem generate_signal_error_atomic:
  assumes "analyze_trend (config st) df_d1 df_h4 = Inl e"
  shows "fst (generate_signal st symb df_d1 df_h4 sess p now) = None \<and>
         snd (generate_signal st symb df_d1 df_h4 sess p now) = st \<and>
         trend_cache (snd (generate_signal st symb df_d1 df_h4 sess p now)) = trend_cache st \<and>
         active_signals (snd (generate_signal st symb df_d1 df_h4 sess p now)) =
           active_signals st"
  using assms by (simp add: generate_signal_Inl)

theorem generate_signal_error_atomic_witness:
  "analyze_trend cfg_short d1_no_close h4_stalled = Inl KeyError \<and>
   generate_signal (init_strategy cfg_short) ''EURUSD'' d1_no_close h4_stalled US 5 0 =
     (None, init_strategy cfg_short)"
proof -
  have h: "analyze_trend (config (init_strategy cfg_short)) d1_no_close h4_stalled = Inl KeyError"
    by (simp add: analyze_trend_def d1_no_close_raises)
  from generate_signal_error_atomic [OF h, of "''EURUSD''" US 5 0] h show ?thesis
    by (simp add: prod_eq_iff)
qed

section \<open>The analysis cache\<close>

text \<open>
  C7 (as the code has it). After every call of \<open>generate_signal\<close> for a symbol \<open>S\<close> on
  which \<open>analyze_trend\<close> returns an analysis, whether or not a signal is emitted, the
  cache maps \<open>S\<close> to exactly that analysis, whatever it held for \<open>S\<close> before, and every
  other symbol keeps its entry.
\<close>

theorem generate_signal_caches_analysis:
  assumes "analyze_trend (config st) df_d1 df_h4 = Inr a"
  shows "map_of (trend_cache (snd (generate_signal st S df_d1 df_h4 sess p now))) =
           (map_of (trend_cache st))(S \<mapsto> a)"
  using assms by (simp add: generate_signal_Inr update_conv')

theorem generate_signal_caches_analysis_witness:
  "map_of (trend_cache (snd (generate_signal (init_strategy cfg_short) ''EURUSD''
       d1_rising h4_rising US 5 0))) ''EURUSD'' =
     Some \<lparr>d1_trend = BULLISH, h4_trend = BULLISH, adx_strength = Fin 100,
          ema_fast = Fin 13, ema_slow = Fin (251 / 20), atr_value = Fin 1,
          trend_confirmation = True\<rparr>"
proof -
  have h: "analyze_trend (config (init_strategy cfg_short)) d1_rising h4_rising =
     Inr \<lparr>d1_trend = BULLISH, h4_trend = BULLISH, adx_strength = Fin 100,
          ema_fast = Fin 13, ema_slow = Fin (251 / 20), atr_value = Fin 1,
          trend_confirmation = True\<rparr>"
    by (simp add: analyze_rising)
  show ?thesis
    by (simp add: generate_signal_caches_analysis [OF h])
qed

text \<open>
  C7, the claim as stated, fails when the analysis raises: after the call on a daily
  frame without its \<open>close\<close> column the cache of a fresh strategy has no entry for the
  symbol.
\<close>

theorem cache_not_written_on_error:
  "map_of (trend_cache (snd (generate_signal (init_strategy cfg_short) ''EURUSD''
       d1_no_close h4_rising US 5 0))) ''EURUSD'' = None"
  by (simp add: generate_signal_Inl analyze_no_close init_strategy_def)

section \<open>Active signals\<close>

lemma generate_signal_active_signals:
  "active_signals (snd (generate_signal st symb df_d1 df_h4 sess p now)) = active_signals st"
  by (cases "analyze_trend (config st) df_d1 df_h4")
     (simp_all add: generate_signal_Inl generate_signal_Inr)

lemma do_call_active_signals: "active_signals (do_call st c) = active_signals st"
  by (cases c) (simp_all add: generate_signal_active_signals update_signal_def)

lemma run_calls_active_signals: "active_signals (run_calls st cs) = active_signals st"
  unfolding run_calls_def
  by (induction cs arbitrary: st) (simp_all add: do_call_active_signals)

text \<open>
  C10. No public operation writes to \<open>active_signals\<close>: every single call leaves it as it
  was; after any sequence of calls on a freshly constructed strategy it is still empty,
  and the status snapshot reports \<open>active_signals == 0\<close>.
\<close>

theorem active_signals_stay_empty:
  "active_signals (do_call st c) = active_signals st \<and>
   active_signals (run_calls (init_strategy cfg) cs) = [] \<and>
   status_active_signals (get_strategy_status (run_calls (init_strategy cfg) cs) now) = 0"
  by (simp add: do_call_active_signals run_calls_active_signals get_strategy_status_def
      init_strategy_def)

section \<open>Stop-loss and take-profit levels\<close>







section \<open>Directional movement\<close>

lemma shift1_length [simp]: "length (shift1 xs) = length xs"
  by (cases xs) (simp_all add: shift1_def)



lemma fsub_NaN [simp]: "fsub x NaN = NaN"
  by (cases x) (simp_all add: fsub_def)


lemma shift1_0: "xs \<noteq> [] \<Longrightarrow> shift1 xs ! 0 = NaN"
  by (cases xs) (simp_all add: shift1_def)

lemma diff_length [simp]: "length (diff xs) = length xs"
  by (simp add: diff_def series_sub_def)


lemma diff_0: "H \<noteq> [] \<Longrightarrow> diff (map Fin H) ! 0 = NaN"
  by (simp add: diff_def series_sub_def shift1_0 fsub_def)

lemma dm_lengths:
  "length hs = length ls \<Longrightarrow>
   length (fst (directional_movement hs ls)) = length hs \<and>
   length (snd (directional_movement hs ls)) = length hs"
  by (simp add: directional_movement_def Let_def zero_where_lt_def zero_where_neg_def
      series_neg_def)








section \<open>Range of the strength oscillator\<close>

lemma map2_map_same: "map2 f (map g xs) (map h xs) = map (\<lambda>x. f (g x) (h x)) xs"
  by (induction xs) simp_all

lemma map2_map2_same:
  "map2 g (map2 f1 xs ys) (map2 f2 xs ys) = map2 (\<lambda>x y. g (f1 x y) (f2 x y)) xs ys"
proof (induction xs arbitrary: ys)
  case Nil
  show ?case by simp
next
  case (Cons x xs)
  show ?case by (cases ys) (simp_all add: Cons.IH)
qed

lemma in_set_map2E:
  assumes "z \<in> set (map2 f xs ys)"
  obtains x y where "x \<in> set xs" "y \<in> set ys" "z = f x y"
  using assms by (auto dest: set_zip_leftD set_zip_rightD)

lemma set_shift1: "set (shift1 xs) \<subseteq> insert NaN (set xs)"
  by (cases xs) (auto simp: shift1_def dest: in_set_butlastD)

subsection \<open>Rolling means keep ranges\<close>

lemma sum_fin_val_nonneg:
  "\<forall>x\<in>set w. nonneg_or_nan x \<Longrightarrow> 0 \<le> sum_list (map fin_val w)"
proof (induction w)
  case Nil
  show ?case by simp
next
  case (Cons a w)
  then have "0 \<le> fin_val a" by (cases a) simp_all
  with Cons show ?case by simp
qed

lemma sum_fin_val_percent:
  "\<forall>x\<in>set w. percent_or_nan x \<Longrightarrow>
   0 \<le> sum_list (map fin_val w) \<and> sum_list (map fin_val w) \<le> 100 * real (length w)"
proof (induction w)
  case Nil
  show ?case by simp
next
  case (Cons a w)
  then have "0 \<le> fin_val a \<and> fin_val a \<le> 100" by (cases a) simp_all
  with Cons show ?case by simp
qed

lemma window_mean_nonneg:
  assumes "\<forall>x\<in>set w. nonneg_or_nan x"
  shows "nonneg_or_nan (window_mean p w)"
  using sum_fin_val_nonneg [OF assms] by (simp add: window_mean_def)

lemma window_mean_percent:
  assumes "\<forall>x\<in>set w. percent_or_nan x" and "length w \<le> p"
  shows "percent_or_nan (window_mean p w)"
proof (cases "p = 0 \<or> length w < p \<or> \<not> list_all is_fin w")
  case True
  then show ?thesis by (auto simp: window_mean_def)
next
  case False
  with assms(2) have len: "length w = p" "0 < p" by auto
  from sum_fin_val_percent [OF assms(1)] len
  have "0 \<le> sum_list (map fin_val w) / real p \<and> sum_list (map fin_val w) / real p \<le> 100"
    by (simp add: divide_le_eq)
  with False show ?thesis by (simp add: window_mean_def)
qed

lemma rolling_loop_length [simp]: "length (rolling_loop p seen xs) = length xs"
  by (induction xs arbitrary: seen) simp_all

lemma rolling_loop_nonneg:
  "\<forall>x\<in>set seen. nonneg_or_nan x \<Longrightarrow> \<forall>x\<in>set xs. nonneg_or_nan x \<Longrightarrow>
   \<forall>x\<in>set (rolling_loop p seen xs). nonneg_or_nan x"
proof (induction xs arbitrary: seen)
  case Nil
  show ?case by simp
next
  case (Cons a xs)
  have w: "\<forall>x\<in>set (take p (a # seen)). nonneg_or_nan x"
    using Cons.prems by (auto dest!: in_set_takeD)
  have "\<forall>x\<in>set (rolling_loop p (a # seen) xs). nonneg_or_nan x"
    using Cons.prems by (intro Cons.IH) auto
  with window_mean_nonneg [OF w] show ?case by simp
qed

lemma rolling_loop_percent:
  "\<forall>x\<in>set seen. percent_or_nan x \<Longrightarrow> \<forall>x\<in>set xs. percent_or_nan x \<Longrightarrow>
   \<forall>x\<in>set (rolling_loop p seen xs). percent_or_nan x"
proof (induction xs arbitrary: seen)
  case Nil
  show ?case by simp
next
  case (Cons a xs)
  have w: "\<forall>x\<in>set (take p (a # seen)). percent_or_nan x"
    using Cons.prems by (auto dest!: in_set_takeD)
  have "\<forall>x\<in>set (rolling_loop p (a # seen) xs). percent_or_nan x"
    using Cons.prems by (intro Cons.IH) auto
  with window_mean_percent [OF w] show ?case by simp
qed

subsection \<open>Ranges of the ADX stages\<close>

lemma fmax_skipna_nonneg:
  assumes "a = Fin va" "0 \<le> va" "nonneg_or_nan b"
  shows "\<exists>v. fmax_skipna a b = Fin v \<and> 0 \<le> v"
  using assms by (cases b) (auto simp: fmax_skipna_def)

lemma abs_sub_nonneg_or_nan:
  assumes "is_fin h" "s = NaN \<or> is_fin s"
  shows "nonneg_or_nan (fabs (fsub h s))"
  using assms by (cases h; cases s) (auto simp: fsub_def)

lemma set_abs_sub_shift:
  assumes "z \<in> set (series_abs (series_sub (map Fin H) (shift1 (map Fin C))))"
  shows "nonneg_or_nan z"
proof -
  from assms obtain d where d: "d \<in> set (series_sub (map Fin H) (shift1 (map Fin C)))"
      and z: "z = fabs d"
    by (auto simp: series_abs_def)
  from d obtain h s where "h \<in> set (map Fin H)" "s \<in> set (shift1 (map Fin C))" "d = fsub h s"
    unfolding series_sub_def by (rule in_set_map2E)
  moreover from this set_shift1 [of "map Fin C"] have "is_fin h" "s = NaN \<or> is_fin s"
    by auto
  ultimately show ?thesis
    using z by (simp add: abs_sub_nonneg_or_nan)
qed

lemma true_range_nonneg:
  assumes "\<forall>b\<in>set bs. bar_low b \<le> bar_high b"
      and "x \<in> set (true_range (map Fin (map bar_high bs)) (map Fin (map bar_low bs))
                      (map Fin (map bar_close bs)))"
  shows "\<exists>v. x = Fin v \<and> 0 \<le> v"
proof -
  let ?hs = "map Fin (map bar_high bs)" and ?ls = "map Fin (map bar_low bs)"
  let ?cs = "map Fin (map bar_close bs)"
  from assms(2) obtain ab c where ab: "ab \<in> set (map2 fmax_skipna (series_sub ?hs ?ls)
        (series_abs (series_sub ?hs (shift1 ?cs))))"
      and c: "c \<in> set (series_abs (series_sub ?ls (shift1 ?cs)))"
      and x: "x = fmax_skipna ab c"
    unfolding true_range_def Let_def row_max3_def by (rule in_set_map2E)
  from ab obtain a b where a: "a \<in> set (series_sub ?hs ?ls)"
      and b: "b \<in> set (series_abs (series_sub ?hs (shift1 ?cs)))"
      and ab': "ab = fmax_skipna a b"
    by (rule in_set_map2E)
  have "series_sub ?hs ?ls = map (\<lambda>b. Fin (bar_high b - bar_low b)) bs"
    by (simp add: series_sub_def map2_map_same fsub_def)
  with a assms(1) obtain va where va: "a = Fin va" "0 \<le> va"
    by auto
  from fmax_skipna_nonneg [OF va set_abs_sub_shift [OF b]] ab'
  obtain vab where vab: "ab = Fin vab" "0 \<le> vab"
    by auto
  from fmax_skipna_nonneg [OF vab set_abs_sub_shift [OF c]] x show ?thesis by simp
qed

lemma zero_where_nonneg:
  assumes "\<forall>x\<in>set xs. x = NaN \<or> is_fin x"
  shows "\<forall>x\<in>set (zero_where_neg (zero_where_lt xs ys)). nonneg_or_nan x"
proof
  fix z assume "z \<in> set (zero_where_neg (zero_where_lt xs ys))"
  then obtain x where x: "x \<in> set (zero_where_lt xs ys)"
      and z: "z = (if flt x (Fin 0) then Fin 0 else x)"
    by (auto simp: zero_where_neg_def)
  from x obtain a b where "a \<in> set xs" "x = (if flt a b then Fin 0 else a)"
    unfolding zero_where_lt_def by (rule in_set_map2E)
  with assms have "x = NaN \<or> is_fin x" by auto
  with z show "nonneg_or_nan z" by (cases x) auto
qed

lemma set_diff_fin:
  "\<forall>x\<in>set (diff (map Fin H)). x = NaN \<or> is_fin x"
proof
  fix x assume "x \<in> set (diff (map Fin H))"
  then obtain a s where "a \<in> set (map Fin H)" "s \<in> set (shift1 (map Fin H))" "x = fsub a s"
    unfolding diff_def series_sub_def by (rule in_set_map2E)
  moreover from this set_shift1 [of "map Fin H"] have "s = NaN \<or> is_fin s" by auto
  ultimately show "x = NaN \<or> is_fin x"
    by (cases s) (auto simp: fsub_def)
qed

lemma directional_movement_nonneg:
  "(\<forall>x\<in>set (fst (directional_movement (map Fin H) (map Fin L))). nonneg_or_nan x) \<and>
   (\<forall>x\<in>set (snd (directional_movement (map Fin H) (map Fin L))). nonneg_or_nan x)"
proof -
  have "\<forall>x\<in>set (series_neg (diff (map Fin L))). x = NaN \<or> is_fin x"
  proof
    fix x assume "x \<in> set (series_neg (diff (map Fin L)))"
    then obtain y where "y \<in> set (diff (map Fin L))" "x = fneg y"
      by (auto simp: series_neg_def)
    with set_diff_fin [of L] show "x = NaN \<or> is_fin x"
      by (cases y) auto
  qed
  with set_diff_fin [of H] show ?thesis
    by (simp add: directional_movement_def Let_def zero_where_nonneg)
qed

lemma di_range:
  assumes "nonneg_or_nan a" "nonneg_or_nan b"
  shows "nonneg_or_undefined (fmul (fdiv a b) (Fin 100))"
  using assms by (cases a; cases b) (auto simp: inf_of_sign_def)

lemma dx_range:
  assumes "nonneg_or_undefined a" "nonneg_or_undefined b"
  shows "percent_or_nan (fmul (fdiv (fabs (fsub a b)) (fadd a b)) (Fin 100))"
proof (cases a; cases b)
  fix x y assume ab: "a = Fin x" "b = Fin y"
  with assms have xy: "0 \<le> x" "0 \<le> y" by simp_all
  show ?thesis
  proof (cases "x + y = 0")
    case True
    with xy have "x = 0" "y = 0" by simp_all
    with ab show ?thesis by (simp add: fsub_def inf_of_sign_def)
  next
    case False
    with xy have pos: "0 < x + y" by simp
    have "\<bar>x - y\<bar> \<le> x + y" using xy by simp
    with pos have "\<bar>x - y\<bar> * 100 / (x + y) \<le> 100" by (simp add: divide_le_eq)
    moreover have "0 \<le> \<bar>x - y\<bar> * 100 / (x + y)" using pos by simp
    ultimately show ?thesis using ab False by (simp add: fsub_def)
  qed
qed (use assms in \<open>auto simp: fsub_def inf_of_sign_def\<close>)

lemma fillna0_percent:
  assumes "\<forall>x\<in>set xs. percent_or_nan x" and "z \<in> set (fillna0 xs)"
  shows "\<exists>v. z = Fin v \<and> 0 \<le> v \<and> v \<le> 100"
proof -
  from assms(2) obtain x where "x \<in> set xs" "z = (if x = NaN then Fin 0 else x)"
    by (auto simp: fillna0_def)
  with assms(1) show ?thesis by (cases x) auto
qed

lemma dx_as_map2:
  "series_scale (series_div (series_abs (series_sub A B)) (series_add A B)) k =
     map2 (\<lambda>a b. fmul (fdiv (fabs (fsub a b)) (fadd a b)) (Fin k)) A B"
  unfolding series_scale_def series_div_def series_abs_def series_sub_def series_add_def
proof (induction A arbitrary: B)
  case Nil
  show ?case by simp
next
  case (Cons a A)
  show ?case using Cons.IH by (cases B) simp_all
qed

lemma di_set:
  assumes "\<forall>x\<in>set A. nonneg_or_nan x" "\<forall>x\<in>set B. nonneg_or_nan x"
      and "z \<in> set (series_scale (series_div A B) 100)"
  shows "nonneg_or_undefined z"
proof -
  from assms(3) obtain q where q: "q \<in> set (series_div A B)" and z: "z = fmul q (Fin 100)"
    by (auto simp: series_scale_def)
  from q obtain a b where "a \<in> set A" "b \<in> set B" "q = fdiv a b"
    unfolding series_div_def by (rule in_set_map2E)
  with assms(1,2) z show ?thesis by (simp add: di_range)
qed

text \<open>
  C5. For every frame that has its high, low and close columns and whose bars all have
  \<open>low <= high\<close>, and for every period \<open>>= 1\<close>, \<open>_calculate_adx\<close> returns a series as
  long as the frame, and every value of it (after \<open>fillna(0)\<close>) is a finite number in
  \<open>[0, 100]\<close>. Arithmetic is exact.
\<close>

theorem calculate_adx_bounded:
  assumes cols: "HIGH \<in> set (columns df)" "LOW \<in> set (columns df)" "CLOSE \<in> set (columns df)"
      and valid: "\<forall>b\<in>set (rows df). bar_low b \<le> bar_high b"
      and period: "1 \<le> period"
  shows "\<exists>adx. calculate_adx df period = Inr adx \<and> length adx = length (rows df) \<and>
               (\<forall>x\<in>set adx. \<exists>v. x = Fin v \<and> 0 \<le> v \<and> v \<le> 100)"
proof -
  let ?hs = "map Fin (map bar_high (rows df))" and ?ls = "map Fin (map bar_low (rows df))"
  let ?cs = "map Fin (map bar_close (rows df))"
  define p where "p = nat period"
  define tr where "tr = true_range ?hs ?ls ?cs"
  define dm_plus where "dm_plus = fst (directional_movement ?hs ?ls)"
  define dm_minus where "dm_minus = snd (directional_movement ?hs ?ls)"
  define atr where "atr = rolling_loop p [] tr"
  define avg_plus where "avg_plus = rolling_loop p [] dm_plus"
  define avg_minus where "avg_minus = rolling_loop p [] dm_minus"
  define dx where "dx = map2 (\<lambda>a b. fmul (fdiv (fabs (fsub a b)) (fadd a b)) (Fin 100))
      (series_scale (series_div avg_plus atr) 100) (series_scale (series_div avg_minus atr) 100)"
  have get: "getitem df HIGH = Inr ?hs" "getitem df LOW = Inr ?ls" "getitem df CLOSE = Inr ?cs"
    using cols by (simp_all add: getitem_def)
  have roll: "rolling_mean period xs = Inr (rolling_loop p [] xs)" for xs
    using period by (simp add: rolling_mean_def p_def)
  have eq: "calculate_adx df period = Inr (fillna0 (rolling_loop p [] dx))"
    unfolding calculate_adx_def get bind_err_Inr Let_def roll dx_as_map2
    unfolding dx_def avg_plus_def avg_minus_def atr_def tr_def dm_plus_def dm_minus_def
    by (rule refl)
  have tr: "\<forall>x\<in>set tr. nonneg_or_nan x"
    using true_range_nonneg [OF valid] unfolding tr_def by fastforce
  have dm: "\<forall>x\<in>set dm_plus. nonneg_or_nan x" "\<forall>x\<in>set dm_minus. nonneg_or_nan x"
    using directional_movement_nonneg [of "map bar_high (rows df)" "map bar_low (rows df)"]
    unfolding dm_plus_def dm_minus_def by simp_all
  have atr: "\<forall>x\<in>set atr. nonneg_or_nan x"
    unfolding atr_def by (rule rolling_loop_nonneg) (simp_all add: tr)
  have avg: "\<forall>x\<in>set avg_plus. nonneg_or_nan x" "\<forall>x\<in>set avg_minus. nonneg_or_nan x"
    unfolding avg_plus_def avg_minus_def
    by (rule rolling_loop_nonneg; simp add: dm)+
  have dx: "\<forall>x\<in>set dx. percent_or_nan x"
  proof
    fix x assume "x \<in> set dx"
    then obtain a b where "a \<in> set (series_scale (series_div avg_plus atr) 100)"
        "b \<in> set (series_scale (series_div avg_minus atr) 100)"
        "x = fmul (fdiv (fabs (fsub a b)) (fadd a b)) (Fin 100)"
      unfolding dx_def by (rule in_set_map2E)
    with di_set [OF avg(1) atr] di_set [OF avg(2) atr] show "percent_or_nan x"
      by (simp add: dx_range)
  qed
  have adx: "\<forall>x\<in>set (rolling_loop p [] dx). percent_or_nan x"
    by (rule rolling_loop_percent) (simp_all add: dx)
  have len: "length (fillna0 (rolling_loop p [] dx)) = length (rows df)"
    by (simp add: fillna0_def dx_def series_scale_def series_div_def avg_plus_def avg_minus_def
        atr_def tr_def dm_plus_def dm_minus_def true_range_def row_max3_def Let_def
        series_sub_def series_abs_def dm_lengths)
  from eq len fillna0_percent [OF adx] show ?thesis by blast
qed

theorem calculate_adx_bounded_witness:
  "calculate_adx h4_stalled 2 = Inr [Fin 0, Fin 0, Fin 0, Fin 100] \<and>
   (\<exists>adx. calculate_adx h4_stalled 2 = Inr adx \<and> length adx = length (rows h4_stalled) \<and>
           (\<forall>x\<in>set adx. \<exists>v. x = Fin v \<and> 0 \<le> v \<and> v \<le> 100))"
proof -
  have c: "HIGH \<in> set (columns h4_stalled)" "LOW \<in> set (columns h4_stalled)"
    "CLOSE \<in> set (columns h4_stalled)"
    by (simp_all add: h4_stalled_def frame_def)
  have v: "\<forall>b\<in>set (rows h4_stalled). bar_low b \<le> bar_high b"
    by (simp add: h4_stalled_def frame_def mk_bar_def)
  have e: "calculate_adx h4_stalled 2 = Inr [Fin 0, Fin 0, Fin 0, Fin 100]"
    by code_simp
  from calculate_adx_bounded [OF c v, of 2] e show ?thesis by simp
qed

section \<open>The exponentially weighted mean of a finite series\<close>







lemma ewm_loop_length [simp]: "length (ewm_loop f avg w xs) = length xs"
  by (induction xs arbitrary: avg w) (simp_all add: Let_def)


section \<open>The trend classifiers\<close>












section \<open>Monotone series\<close>














end
